theory Spec2Isabelle
  imports Complex_Main "HOL-Library.Sublist"
begin

section \<open>Python values and errors\<close>

text \<open>
  The cells of the forecast frame hold Python values. The model keeps the
  values that decide the behaviour of \<^verbatim>\<open>generate_recommendations\<close>:
  \<^item> \<open>Num q\<close>, a finite IEEE double, given by the rational \<open>q\<close> it denotes (the
    rationals that are doubles are those of \<open>is_double\<close>; the thresholds 70, 55
    and 40 are exact);
  \<^item> \<open>PyInt i\<close>, a Python \<^verbatim>\<open>int\<close>, of any size;
  \<^item> the negative zero of the doubles (it compares as zero and prints with a
    sign), the two infinities and NaN;
  \<^item> a string.
  A cell holding \<^verbatim>\<open>None\<close> is not modelled: what \<^verbatim>\<open>iterrows()\<close> hands to the loop
  for it (\<^verbatim>\<open>None\<close> or NaN) depends on the other cells of the row and on the
  version of pandas.
\<close>

datatype pyval =
    Num rat
  | PyInt int
  | NegZero
  | PosInf
  | NegInf
  | NaN
  | Str string

datatype error =
    TypeError
  | ValueError
  | KeyError
  | OverflowError

text \<open>
  The rationals that are doubles are the \<open>m * 2 ^ e\<close> with \<open>\<bar>m\<bar> < 2 ^ 53\<close> and
  \<open>- 1074 \<le> e \<le> 971\<close>. In lowest terms: the denominator is a power of two,
  at most \<open>2 ^ 1074\<close>, the odd part of the numerator is below \<open>2 ^ 53\<close>, and the
  magnitude is below \<open>2 ^ 1024\<close>.
\<close>

fun odd_part :: "nat \<Rightarrow> nat" where
  "odd_part n = (if n = 0 then 0 else if even n then odd_part (n div 2) else n)"

declare odd_part.simps [simp del]

definition is_double :: "rat \<Rightarrow> bool" where
  "is_double q =
     (let (n, d) = quotient_of q
      in odd_part (nat d) = 1 \<and> d \<le> 2 ^ 1074
         \<and> odd_part (nat \<bar>n\<bar>) < 2 ^ 53 \<and> \<bar>q\<bar> < 2 ^ 1024)"

text \<open>The finite numbers: the doubles (the negative zero is one) and the ints.\<close>

fun is_finite_number :: "pyval \<Rightarrow> bool" where
  "is_finite_number (Num q) = is_double q"
| "is_finite_number (PyInt i) = True"
| "is_finite_number NegZero = True"
| "is_finite_number v = False"

text \<open>The numbers, finite or not.\<close>

fun is_number :: "pyval \<Rightarrow> bool" where
  "is_number (Str s) = False"
| "is_number PosInf = True"
| "is_number NegInf = True"
| "is_number NaN = True"
| "is_number v = is_finite_number v"

text \<open>
  The ints that \<^verbatim>\<open>float()\<close> converts are those whose nearest double is a finite
  one. Half-way between the largest double, \<open>2 ^ 1024 - 2 ^ 971\<close>, and \<open>2 ^ 1024\<close>
  the tie goes to \<open>2 ^ 1024\<close>, so the bound is \<open>2 ^ 1024 - 2 ^ 970\<close>. Every other
  value of the model is in the range.
\<close>

fun in_float_range :: "pyval \<Rightarrow> bool" where
  "in_float_range (PyInt i) = (\<bar>i\<bar> < 2 ^ 1024 - 2 ^ 970)"
| "in_float_range v = True"

text \<open>The rational a finite number denotes.\<close>

fun num_value :: "pyval \<Rightarrow> rat" where
  "num_value (Num q) = q"
| "num_value (PyInt i) = of_int i"
| "num_value v = 0"

text \<open>
  \<^verbatim>\<open>n_value > c\<close> for a number \<open>c\<close>: an int and a double compare by their exact
  values, NaN compares false with everything, a string against a number
  raises \<^verbatim>\<open>TypeError\<close>.
\<close>

fun py_gt :: "pyval \<Rightarrow> rat \<Rightarrow> error + bool" where
  "py_gt (Num q) c = Inr (q > c)"
| "py_gt (PyInt i) c = Inr (of_int i > c)"
| "py_gt NegZero c = Inr (0 > c)"
| "py_gt PosInf c = Inr True"
| "py_gt NegInf c = Inr False"
| "py_gt NaN c = Inr False"
| "py_gt (Str s) c = Inl TypeError"

section \<open>The format specification \<^verbatim>\<open>.2f\<close>\<close>

text \<open>The decimal digit \<open>d\<close>, for \<open>d < 10\<close> (every call below passes a remainder modulo 10).\<close>

definition digit_char :: "nat \<Rightarrow> char" where
  "digit_char d = ''0123456789'' ! d"

fun show_nat :: "nat \<Rightarrow> string" where
  "show_nat n = (if n < 10 then [digit_char n] else show_nat (n div 10) @ [digit_char (n mod 10)])"

declare show_nat.simps [simp del]

text \<open>
  Rounding to the nearest integer, ties to the even one: what the correctly
  rounded conversion behind \<^verbatim>\<open>format(x, '.2f')\<close> does with the exact value of
  the number.
\<close>

definition round_half_even :: "rat \<Rightarrow> int" where
  "round_half_even x =
     (let f = \<lfloor>x\<rfloor>; d = x - of_int f
      in if d < 1 / 2 then f
         else if 1 / 2 < d then f + 1
         else if even f then f else f + 1)"

text \<open>
  The digits of \<open>\<bar>x\<bar>\<close> with two decimals; the sign is kept also when the
  rounded magnitude is zero (\<^verbatim>\<open>format(-0.001, '.2f') == '-0.00'\<close>).
\<close>

definition format_2f_rat :: "rat \<Rightarrow> string" where
  "format_2f_rat x =
     (let n = nat (round_half_even (\<bar>x\<bar> * 100))
      in (if x < 0 then ''-'' else '''')
         @ show_nat (n div 100) @ ''.''
         @ [digit_char (n mod 100 div 10), digit_char (n mod 10)])"

text \<open>
  \<^verbatim>\<open>float(i)\<close>, which the format specification applies to an int before it
  prints: the double nearest to \<open>i\<close>, ties to the even mantissa (an int of more
  than 53 bits loses its low bits), and \<^verbatim>\<open>OverflowError\<close> for an int out of the
  range of the doubles.
\<close>

fun bit_length :: "nat \<Rightarrow> nat" where
  "bit_length n = (if n = 0 then 0 else Suc (bit_length (n div 2)))"

declare bit_length.simps [simp del]

definition nearest_double :: "nat \<Rightarrow> nat" where
  "nearest_double a =
     (let shift = bit_length a - 53;
          q = a div 2 ^ shift;
          r = a mod 2 ^ shift
      in (if 2 * r < 2 ^ shift then q
          else if 2 ^ shift < 2 * r then q + 1
          else if even q then q else q + 1) * 2 ^ shift)"

definition float_of_int :: "int \<Rightarrow> error + rat" where
  "float_of_int i =
     (if 2 ^ 1024 - 2 ^ 970 \<le> \<bar>i\<bar> then Inl OverflowError
      else Inr (of_int (sgn i * int (nearest_double (nat \<bar>i\<bar>)))))"

fun format_2f :: "pyval \<Rightarrow> error + string" where
  "format_2f (Num q) = Inr (format_2f_rat q)"
| "format_2f (PyInt i) =
     (case float_of_int i of Inl e \<Rightarrow> Inl e | Inr q \<Rightarrow> Inr (format_2f_rat q))"
| "format_2f NegZero = Inr ''-0.00''"
| "format_2f PosInf = Inr ''inf''"
| "format_2f NegInf = Inr ''-inf''"
| "format_2f NaN = Inr ''nan''"
| "format_2f (Str s) = Inl ValueError"

section \<open>The advisory templates of \<^verbatim>\<open>utils.py\<close>\<close>

text \<open>
  The four f-strings of lines 21 to 59, each as a function of the text that
  \<^verbatim>\<open>{n_value:.2f}\<close> expands to, with the whitespace of the source.
\<close>

definition high_template :: "string \<Rightarrow> string" where
  "high_template n =
     ''\<newline>''
   @ ''            *High Nitrogen Required: '' @ n @ ''*\<newline>''
   @ ''            \<newline>''
   @ ''            - Apply high-nitrogen fertilizers like Ammonium Nitrate or Urea\<newline>''
   @ ''            - Recommended application rate: 2.5-3.0 kg per acre\<newline>''
   @ ''            - Apply in split doses to prevent nitrogen runoff\<newline>''
   @ ''            - Monitor plants for signs of excess nitrogen (excessive vegetative growth)\<newline>''
   @ ''            - Consider soil testing before application\<newline>''
   @ ''            ''"

definition moderate_high_template :: "string \<Rightarrow> string" where
  "moderate_high_template n =
     ''\<newline>''
   @ ''            *Moderate-High Nitrogen Required: '' @ n @ ''*\<newline>''
   @ ''            \<newline>''
   @ ''            - Apply balanced NPK fertilizer with higher N content (e.g., 20-10-10)\<newline>''
   @ ''            - Recommended application rate: 2.0-2.5 kg per acre\<newline>''
   @ ''            - Focus on slow-release nitrogen sources\<newline>''
   @ ''            - For leafy crops, consider foliar nitrogen application\<newline>''
   @ ''            - Monitor soil moisture to maximize nitrogen uptake\<newline>''
   @ ''            ''"

definition moderate_template :: "string \<Rightarrow> string" where
  "moderate_template n =
     ''\<newline>''
   @ ''            *Moderate Nitrogen Required: '' @ n @ ''*\<newline>''
   @ ''            \<newline>''
   @ ''            - Apply balanced NPK fertilizer (e.g., 15-15-15)\<newline>''
   @ ''            - Recommended application rate: 1.5-2.0 kg per acre\<newline>''
   @ ''            - Incorporate organic matter to improve nitrogen retention\<newline>''
   @ ''            - Consider crop rotation with legumes in future planning\<newline>''
   @ ''            - Monitor for signs of nitrogen deficiency (yellowing of older leaves)\<newline>''
   @ ''            ''"

definition low_moderate_template :: "string \<Rightarrow> string" where
  "low_moderate_template n =
     ''\<newline>''
   @ ''            *Low-Moderate Nitrogen Required: '' @ n @ ''*\<newline>''
   @ ''            \<newline>''
   @ ''            - Apply light nitrogen fertilization (e.g., 10-10-10)\<newline>''
   @ ''            - Recommended application rate: 1.0-1.5 kg per acre\<newline>''
   @ ''            - Consider organic alternatives like compost or manure\<newline>''
   @ ''            - Implement cover crops to build soil nitrogen naturally\<newline>''
   @ ''            - Avoid over-application which may lead to nutrient runoff\<newline>''
   @ ''            ''"

text \<open>The string appended at lines 62 to 69.\<close>

definition soil_health_notes :: string where
  "soil_health_notes =
     ''\<newline>''
   @ ''        \<newline>''
   @ ''        *Additional Soil Health Recommendations:*\<newline>''
   @ ''        - Maintain proper soil pH (6.0-7.0) for optimal nutrient availability\<newline>''
   @ ''        - Ensure adequate soil moisture for nutrient uptake\<newline>''
   @ ''        - Consider micronutrient supplements if deficiency symptoms are present\<newline>''
   @ ''        - Practice sustainable soil management to improve long-term fertility\<newline>''
   @ ''        ''"

text \<open>An f-string with one replacement field: the field is formatted, then the template filled.\<close>

definition fstring :: "(string \<Rightarrow> string) \<Rightarrow> pyval \<Rightarrow> error + string" where
  "fstring template n_value =
     (case format_2f n_value of Inl e \<Rightarrow> Inl e | Inr n \<Rightarrow> Inr (template n))"

text \<open>Lines 20 to 59: the \<^verbatim>\<open>if\<close>/\<^verbatim>\<open>elif\<close> chain, in the order of the source.\<close>

definition band_recommendation :: "pyval \<Rightarrow> error + string" where
  "band_recommendation n_value =
     (case py_gt n_value 70 of
        Inl e \<Rightarrow> Inl e
      | Inr True \<Rightarrow> fstring high_template n_value
      | Inr False \<Rightarrow>
         (case py_gt n_value 55 of
            Inl e \<Rightarrow> Inl e
          | Inr True \<Rightarrow> fstring moderate_high_template n_value
          | Inr False \<Rightarrow>
             (case py_gt n_value 40 of
                Inl e \<Rightarrow> Inl e
              | Inr True \<Rightarrow> fstring moderate_template n_value
              | Inr False \<Rightarrow> fstring low_moderate_template n_value)))"

text \<open>Lines 20 to 69: the band text, then the soil health notes appended.\<close>

definition recommendation_text :: "pyval \<Rightarrow> error + string" where
  "recommendation_text n_value =
     (case band_recommendation n_value of
        Inl e \<Rightarrow> Inl e
      | Inr recommendation \<Rightarrow> Inr (recommendation @ soil_health_notes))"

section \<open>The frame and the loop of \<^verbatim>\<open>generate_recommendations\<close>\<close>

text \<open>
  A row of the forecast frame has the two columns the docstring asks for; any
  further column (\<^verbatim>\<open>lower_ci\<close>, \<^verbatim>\<open>upper_ci\<close>, ...) lives in the extension of the
  record. The period label is a string, as \<^verbatim>\<open>app.py\<close> assigns it.
\<close>

record row =
  date :: string
  predicted_value :: pyval

record forecast_point = row +
  lower_ci :: pyval
  upper_ci :: pyval

text \<open>
  A Python \<^verbatim>\<open>dict\<close> keeps its keys in insertion order; assigning to a key that is
  present replaces the value and leaves the key where it is.
\<close>

fun dict_set :: "('k \<times> 'v) list \<Rightarrow> 'k \<Rightarrow> 'v \<Rightarrow> ('k \<times> 'v) list" where
  "dict_set [] k v = [(k, v)]"
| "dict_set ((k', v') # d) k v =
     (if k' = k then (k', v) # d else (k', v') # dict_set d k v)"

definition dict_keys :: "('k \<times> 'v) list \<Rightarrow> 'k list" where
  "dict_keys d = map fst d"

text \<open>
  The variables the function reads and writes: the frame it is given and its
  local dictionary. Every statement is a step on this state, so that what a
  call leaves behind can be stated.
\<close>

record 'r state =
  forecast_df :: "'r row_scheme list"
  recommendations :: "(string \<times> string) list"

text \<open>
  Lines 16 to 71, the body of the loop, for one row; an exception leaves the
  state as it is. \<^verbatim>\<open>iterrows()\<close> rebuilds the row as a series of its own;
  the numbers and strings of the model come out of it as they went in, so the
  body reads the cell itself.
\<close>

definition loop_body :: "'r row_scheme \<Rightarrow> 'r state \<Rightarrow> error option \<times> 'r state" where
  "loop_body row s =
     (let month = date row;
          n_value = predicted_value row
      in case recommendation_text n_value of
           Inl e \<Rightarrow> (Some e, s)
         | Inr recommendation \<Rightarrow>
             (None, s\<lparr>recommendations := dict_set (recommendations s) month recommendation\<rparr>))"

text \<open>
  Line 15: \<^verbatim>\<open>iterrows()\<close> walks the rows the frame had when the loop started, in
  index order; the first exception ends the loop.
\<close>

fun for_loop :: "'r row_scheme list \<Rightarrow> 'r state \<Rightarrow> error option \<times> 'r state" where
  "for_loop [] s = (None, s)"
| "for_loop (row # rows) s =
     (case loop_body row s of
        (Some e, s') \<Rightarrow> (Some e, s')
      | (None, s') \<Rightarrow> for_loop rows s')"

text \<open>
  Lines 13 to 73 as a step on the state: the local dictionary starts empty
  whatever it held before, the loop runs, the dictionary is returned.
\<close>

definition generate_recommendations_call ::
    "'r state \<Rightarrow> (error + (string \<times> string) list) \<times> 'r state" where
  "generate_recommendations_call s =
     (let s0 = s\<lparr>recommendations := []\<rparr>
      in case for_loop (forecast_df s0) s0 of
           (Some e, s1) \<Rightarrow> (Inl e, s1)
         | (None, s1) \<Rightarrow> (Inr (recommendations s1), s1))"

text \<open>The function as its caller sees it: from the frame to the dictionary, or the exception.\<close>

definition generate_recommendations ::
    "'r row_scheme list \<Rightarrow> error + (string \<times> string) list" where
  "generate_recommendations df =
     fst (generate_recommendations_call \<lparr>forecast_df = df, recommendations = []\<rparr>)"

section \<open>The bands as the specification words them\<close>

datatype band = LowModerate | Moderate | ModerateHigh | High

text \<open>The band of a value: above 70, above 55 up to 70, above 40 up to 55, at most 40.\<close>

definition spec_band :: "rat \<Rightarrow> band" where
  "spec_band v =
     (if v > 70 then High
      else if 55 < v \<and> v \<le> 70 then ModerateHigh
      else if 40 < v \<and> v \<le> 55 then Moderate
      else LowModerate)"

fun band_label :: "band \<Rightarrow> string" where
  "band_label High = ''High Nitrogen''"
| "band_label ModerateHigh = ''Moderate-High''"
| "band_label Moderate = ''Moderate Nitrogen''"
| "band_label LowModerate = ''Low-Moderate''"

text \<open>The order Low-Moderate, Moderate, Moderate-High, High.\<close>

fun band_rank :: "band \<Rightarrow> nat" where
  "band_rank LowModerate = 0"
| "band_rank Moderate = 1"
| "band_rank ModerateHigh = 2"
| "band_rank High = 3"

text \<open>
  Where an advisory text carries its label: after the line break and the
  indentation the f-string opens with, and the asterisk.
\<close>

definition label_lead :: string where
  "label_lead = ''\<newline>            *''"

definition carries_label :: "string \<Rightarrow> band \<Rightarrow> bool" where
  "carries_label text b = prefix (label_lead @ band_label b) text"

text \<open>The band an advisory text names, read off the text itself.\<close>

definition band_of_text :: "string \<Rightarrow> band option" where
  "band_of_text text =
     (if carries_label text High then Some High
      else if carries_label text ModerateHigh then Some ModerateHigh
      else if carries_label text Moderate then Some Moderate
      else if carries_label text LowModerate then Some LowModerate
      else None)"

text \<open>The heading each band's text opens with, and the f-string of each band.\<close>

fun band_heading :: "band \<Rightarrow> string" where
  "band_heading High = ''High Nitrogen Required: ''"
| "band_heading ModerateHigh = ''Moderate-High Nitrogen Required: ''"
| "band_heading Moderate = ''Moderate Nitrogen Required: ''"
| "band_heading LowModerate = ''Low-Moderate Nitrogen Required: ''"

fun band_template :: "band \<Rightarrow> string \<Rightarrow> string" where
  "band_template High = high_template"
| "band_template ModerateHigh = moderate_high_template"
| "band_template Moderate = moderate_template"
| "band_template LowModerate = low_moderate_template"

text \<open>
  The branch of the chain of lines 20 to 50 that is entered, before the
  f-string of the branch is evaluated: the comparisons of
  \<open>band_recommendation\<close>, in the same order.
\<close>

definition branch_taken :: "pyval \<Rightarrow> error + band" where
  "branch_taken n_value =
     (case py_gt n_value 70 of
        Inl e \<Rightarrow> Inl e
      | Inr True \<Rightarrow> Inr High
      | Inr False \<Rightarrow>
         (case py_gt n_value 55 of
            Inl e \<Rightarrow> Inl e
          | Inr True \<Rightarrow> Inr ModerateHigh
          | Inr False \<Rightarrow>
             (case py_gt n_value 40 of
                Inl e \<Rightarrow> Inl e
              | Inr True \<Rightarrow> Inr Moderate
              | Inr False \<Rightarrow> Inr LowModerate)))"

text \<open>The elements of a list in the order in which they first occur.\<close>

definition first_occurrences :: "'a list \<Rightarrow> 'a list" where
  "first_occurrences xs = fold (\<lambda>x seen. if x \<in> set seen then seen else seen @ [x]) xs []"

section \<open>The forecast fetch of \<^verbatim>\<open>app.py\<close>\<close>

text \<open>
  A parsed JSON document, as \<^verbatim>\<open>response.json()\<close> returns it. \<open>JNull\<close> is Python's
  \<^verbatim>\<open>None\<close>; an object is the list of its entries (the keys of a parsed object
  are pairwise distinct).
\<close>

datatype json_value =
    JNull
  | JBool bool
  | JNumber rat
  | JString string
  | JArray "json_value list"
  | JObject "(string \<times> json_value) list"

text \<open>
  What \<^verbatim>\<open>get_forecast\<close> reads of the response object: its status code, and what
  the call \<^verbatim>\<open>response.json()\<close> does, which raises (with the text of the
  exception) when the body is not a JSON document.
\<close>

record response =
  status_code :: int
  json :: "string + json_value"

text \<open>
  The outcome of \<^verbatim>\<open>requests.get\<close>: a transport error raises an exception (with its
  text), otherwise there is a response.
\<close>

datatype http_outcome =
    Raises string
  | Responds response

text \<open>What the script shows on the page with \<^verbatim>\<open>st.error\<close> and \<^verbatim>\<open>st.info\<close>.\<close>

datatype display =
    StError string
  | StInfo string

definition show_int :: "int \<Rightarrow> string" where
  "show_int i = (if i < 0 then ''-'' @ show_nat (nat (- i)) else show_nat (nat i))"

text \<open>
  Lines 55 to 65. The value returned (\<open>JNull\<close> for \<^verbatim>\<open>None\<close>) and the messages
  shown. The \<^verbatim>\<open>try\<close> covers the request and the call of \<^verbatim>\<open>json()\<close> alike.
\<close>

definition get_forecast :: "http_outcome \<Rightarrow> json_value \<times> display list" where
  "get_forecast outcome =
     (case outcome of
        Raises e \<Rightarrow> (JNull, [StError (''Error connecting to API: '' @ e)])
      | Responds response \<Rightarrow>
          if status_code response = 200 then
            (case json response of
               Inl e \<Rightarrow> (JNull, [StError (''Error connecting to API: '' @ e)])
             | Inr body \<Rightarrow> (body, []))
          else
            (JNull, [StError (''Error fetching forecast: '' @ show_int (status_code response))]))"

section \<open>The forecast tab of \<^verbatim>\<open>app.py\<close>\<close>

text \<open>The truth value of a Python object, as \<^verbatim>\<open>if forecast_data:\<close> takes it.\<close>

fun truthy :: "json_value \<Rightarrow> bool" where
  "truthy JNull = False"
| "truthy (JBool b) = b"
| "truthy (JNumber q) = (q \<noteq> 0)"
| "truthy (JString s) = (s \<noteq> [])"
| "truthy (JArray xs) = (xs \<noteq> [])"
| "truthy (JObject kv) = (kv \<noteq> [])"

text \<open>
  \<^verbatim>\<open>forecast_data['forecast']\<close>: a dictionary without the key raises
  \<^verbatim>\<open>KeyError\<close>, any other object subscripted with a string raises
  \<^verbatim>\<open>TypeError\<close>.
\<close>

fun getitem :: "json_value \<Rightarrow> string \<Rightarrow> error + json_value" where
  "getitem (JObject kv) k = (case map_of kv k of None \<Rightarrow> Inl KeyError | Some v \<Rightarrow> Inr v)"
| "getitem v k = Inl TypeError"

text \<open>
  The shape of a pandas frame: the number of its rows and the names of its
  columns. Lines 189 to 227 raise or not by the shape alone.
\<close>

record frame =
  index :: nat
  columns :: "string list"

fun is_object :: "json_value \<Rightarrow> bool" where
  "is_object (JObject kv) = True"
| "is_object v = False"

fun object_keys :: "json_value \<Rightarrow> string list" where
  "object_keys (JObject kv) = map fst kv"
| "object_keys v = []"

definition add_column :: "string list \<Rightarrow> string \<Rightarrow> string list" where
  "add_column cols name = (if name \<in> set cols then cols else cols @ [name])"

text \<open>
  \<^verbatim>\<open>pd.DataFrame(forecast_results)\<close>. For a list of records (JSON objects), the
  shape the endpoint is specified to send, pandas builds one row per record
  and one column per key, in the order the keys first occur; the empty list
  gives the empty frame. What pandas does with any other document is the
  parameter \<open>other\<close>: nothing is assumed about it.
\<close>

definition pd_DataFrame ::
    "(json_value \<Rightarrow> error + frame) \<Rightarrow> json_value \<Rightarrow> error + frame" where
  "pd_DataFrame other data =
     (case data of
        JArray items \<Rightarrow>
          if list_all is_object items
          then Inr \<lparr>index = length items,
                    columns = fold (\<lambda>k cols. add_column cols k) (concat (map object_keys items)) []\<rparr>
          else other data
      | _ \<Rightarrow> other data)"

text \<open>
  \<^verbatim>\<open>df[name] = values\<close> for a list of values: a frame without rows takes its
  rows from a non-empty list; otherwise the list must have one value per row,
  or pandas raises \<^verbatim>\<open>ValueError\<close>.
\<close>

definition setitem :: "frame \<Rightarrow> string \<Rightarrow> 'a list \<Rightarrow> error + frame" where
  "setitem df name values =
     (if index df = 0 \<and> values \<noteq> []
      then Inr \<lparr>index = length values, columns = add_column (columns df) name\<rparr>
      else if length values \<noteq> index df then Inl ValueError
      else Inr (df\<lparr>columns := add_column (columns df) name\<rparr>))"

text \<open>\<^verbatim>\<open>df[name]\<close>: the column (here: its length), or \<^verbatim>\<open>KeyError\<close>.\<close>

definition read_column :: "frame \<Rightarrow> string \<Rightarrow> error + nat" where
  "read_column df name = (if name \<in> set (columns df) then Inr (index df) else Inl KeyError)"

text \<open>Line 196: \<^verbatim>\<open>[f"Month {i+1}" for i in range(6)]\<close>.\<close>

definition month_labels :: "string list" where
  "month_labels = map (\<lambda>i. ''Month '' @ show_nat (i + 1)) [0..<6]"

text \<open>
  Lines 216 to 227: the traces of the chart read the columns \<^verbatim>\<open>date\<close>,
  \<^verbatim>\<open>predicted_value\<close>, \<^verbatim>\<open>upper_ci\<close> and \<^verbatim>\<open>lower_ci\<close> of the frame, in this order.
\<close>

definition chart_columns :: "frame \<Rightarrow> error + unit" where
  "chart_columns df =
     (case read_column df ''date'' of Inl e \<Rightarrow> Inl e | Inr x \<Rightarrow>
      case read_column df ''predicted_value'' of Inl e \<Rightarrow> Inl e | Inr y \<Rightarrow>
      case read_column df ''upper_ci'' of Inl e \<Rightarrow> Inl e | Inr u \<Rightarrow>
      case read_column df ''lower_ci'' of Inl e \<Rightarrow> Inl e | Inr l \<Rightarrow> Inr ())"

text \<open>Lines 269 to 277: what the tab shows when there is no forecast.\<close>

definition unavailable_notice :: "display list" where
  "unavailable_notice =
     [StError ''Unable to get forecast data. Make sure the API server is running.'',
      StInfo (''\<newline>''
        @ ''            To start the API server, run the following command in a terminal:\<newline>''
        @ ''            \<newline>''
        @ ''            uvicorn main:app --host 0.0.0.0 --port 8000\<newline>''
        @ ''            \<newline>''
        @ ''            '')]"

text \<open>
  The forecast tab, lines 187 to 233 and 268 to 277: the fetch, the frame with
  its six labels and the chart, or the notice that no forecast is there. The
  result is what is shown by \<^verbatim>\<open>st.error\<close> and \<^verbatim>\<open>st.info\<close> and the frame the rest
  of the tab (the tables and the recommendations) goes on with; an exception
  ends the script. The historical trace of the chart (line 206) repeats what
  the first tab has computed at line 120 and is left out.
\<close>

definition forecast_tab ::
    "(json_value \<Rightarrow> error + frame) \<Rightarrow> http_outcome \<Rightarrow> error + (display list \<times> frame option)" where
  "forecast_tab other outcome =
     (let (forecast_data, shown) = get_forecast outcome
      in if truthy forecast_data then
           (case getitem forecast_data ''forecast'' of Inl e \<Rightarrow> Inl e | Inr forecast_results \<Rightarrow>
            case pd_DataFrame other forecast_results of Inl e \<Rightarrow> Inl e | Inr df \<Rightarrow>
            case setitem df ''date'' month_labels of Inl e \<Rightarrow> Inl e | Inr df' \<Rightarrow>
            case chart_columns df' of Inl e \<Rightarrow> Inl e | Inr u \<Rightarrow>
              Inr (shown, Some df'))
         else
           Inr (shown @ unavailable_notice, None))"

section \<open>Lemmas on the advisory text and the loop\<close>

lemma high_carries: "carries_label (high_template n @ rest) b' \<longleftrightarrow> b' = High"
  by (cases b') (simp_all add: carries_label_def label_lead_def high_template_def)

lemma moderate_high_carries: "carries_label (moderate_high_template n @ rest) b' \<longleftrightarrow> b' = ModerateHigh"
  by (cases b') (simp_all add: carries_label_def label_lead_def moderate_high_template_def)

lemma moderate_carries: "carries_label (moderate_template n @ rest) b' \<longleftrightarrow> b' = Moderate"
  by (cases b') (simp_all add: carries_label_def label_lead_def moderate_template_def)

lemma low_moderate_carries: "carries_label (low_moderate_template n @ rest) b' \<longleftrightarrow> b' = LowModerate"
  by (cases b') (simp_all add: carries_label_def label_lead_def low_moderate_template_def)

lemma template_carries:
  "carries_label (band_template b n @ rest) b' \<longleftrightarrow> b' = b"
  by (cases b) (simp_all add: high_carries moderate_high_carries moderate_carries low_moderate_carries)

lemma band_of_text_template:
  "band_of_text (band_template b n @ rest) = Some b"
  by (cases b)
     (simp_all add: band_of_text_def high_carries moderate_high_carries
        moderate_carries low_moderate_carries)

lemmas band_of_text_templates =
  band_of_text_template [of High, simplified]
  band_of_text_template [of ModerateHigh, simplified]
  band_of_text_template [of Moderate, simplified]
  band_of_text_template [of LowModerate, simplified]

lemma template_heading:
  "prefix (label_lead @ band_heading b @ n @ ''*'') (band_template b n @ rest)"
  by (cases b)
     (simp_all add: label_lead_def high_template_def
        moderate_high_template_def moderate_template_def low_moderate_template_def)

lemma recommendation_text_suffix:
  "recommendation_text v = Inr t \<Longrightarrow> suffix soil_health_notes t"
  by (auto simp: recommendation_text_def suffix_def split: sum.splits)

lemma loop_body_ok:
  "recommendation_text (predicted_value row) = Inr t \<Longrightarrow>
     loop_body row s = (None, s\<lparr>recommendations := dict_set (recommendations s) (date row) t\<rparr>)"
  by (simp add: loop_body_def)

lemma loop_body_raise:
  "recommendation_text (predicted_value row) = Inl e \<Longrightarrow> loop_body row s = (Some e, s)"
  by (simp add: loop_body_def)

lemma loop_body_frame: "forecast_df (snd (loop_body row s)) = forecast_df s"
  by (simp add: loop_body_def Let_def split: sum.splits)

lemma for_loop_frame: "forecast_df (snd (for_loop rows s)) = forecast_df s"
proof (induction rows arbitrary: s)
  case Nil
  show ?case by simp
next
  case (Cons row rows)
  show ?case
  proof (cases "recommendation_text (predicted_value row)")
    case (Inl e)
    then show ?thesis by (simp add: loop_body_raise)
  next
    case (Inr t)
    then show ?thesis by (simp add: loop_body_ok Cons.IH)
  qed
qed

lemma for_loop_cong:
  assumes "map date rows1 = map date rows2"
    and "map predicted_value rows1 = map predicted_value rows2"
    and "recommendations s1 = recommendations s2"
  shows "fst (for_loop rows1 s1) = fst (for_loop rows2 s2) \<and>
         recommendations (snd (for_loop rows1 s1)) = recommendations (snd (for_loop rows2 s2))"
  using assms
proof (induction rows1 arbitrary: rows2 s1 s2)
  case Nil
  then show ?case by simp
next
  case (Cons r1 rows1)
  then obtain r2 rest2 where rows2: "rows2 = r2 # rest2" by (cases rows2) auto
  with Cons.prems have eq: "date r1 = date r2" "predicted_value r1 = predicted_value r2"
    and rest: "map date rows1 = map date rest2" "map predicted_value rows1 = map predicted_value rest2"
    by auto
  show ?case
  proof (cases "recommendation_text (predicted_value r1)")
    case (Inl e)
    with eq Cons.prems(3) show ?thesis
      by (simp add: rows2 loop_body_raise)
  next
    case (Inr t)
    with eq have t2: "recommendation_text (predicted_value r2) = Inr t" by simp
    have "recommendations (s1\<lparr>recommendations := dict_set (recommendations s1) (date r1) t\<rparr>)
        = recommendations (s2\<lparr>recommendations := dict_set (recommendations s2) (date r2) t\<rparr>)"
      using eq Cons.prems(3) by simp
    from Cons.IH [OF rest this] show ?thesis
      by (simp add: rows2 loop_body_ok [OF Inr] loop_body_ok [OF t2])
  qed
qed

lemma generate_recommendations_unfold:
  "generate_recommendations df =
     (case for_loop df \<lparr>forecast_df = df, recommendations = []\<rparr> of
        (Some e, s1) \<Rightarrow> Inl e
      | (None, s1) \<Rightarrow> Inr (recommendations s1))"
  by (simp add: generate_recommendations_def generate_recommendations_call_def
        split: prod.splits option.splits)

lemma dict_set_mem:
  "(k', v') \<in> set (dict_set d k v) \<Longrightarrow> (k', v') \<in> set d \<or> (k' = k \<and> v' = v)"
  by (induction d) (auto split: if_splits)

lemma for_loop_values:
  "(k, t) \<in> set (recommendations (snd (for_loop rows s))) \<Longrightarrow>
     (k, t) \<in> set (recommendations s) \<or>
     (\<exists>row \<in> set rows. date row = k \<and> recommendation_text (predicted_value row) = Inr t)"
proof (induction rows arbitrary: s)
  case Nil
  then show ?case by simp
next
  case (Cons row rows)
  show ?case
  proof (cases "recommendation_text (predicted_value row)")
    case (Inl e)
    with Cons.prems show ?thesis by (simp add: loop_body_raise)
  next
    case (Inr t')
    let ?s = "s\<lparr>recommendations := dict_set (recommendations s) (date row) t'\<rparr>"
    from Cons.prems Inr have "(k, t) \<in> set (recommendations (snd (for_loop rows ?s)))"
      by (simp add: loop_body_ok)
    from Cons.IH [OF this] show ?thesis
      using Inr by (auto dest: dict_set_mem)
  qed
qed

lemma generate_recommendations_single:
  "recommendation_text (predicted_value row) = Inr t \<Longrightarrow>
     generate_recommendations [row] = Inr [(date row, t)]"
  by (simp add: generate_recommendations_unfold loop_body_ok)

lemma generate_recommendations_single_raise:
  "recommendation_text (predicted_value row) = Inl e \<Longrightarrow>
     generate_recommendations [row] = Inl e"
  by (simp add: generate_recommendations_unfold loop_body_raise)

lemma dict_keys_dict_set:
  "dict_keys (dict_set d k v) =
     (if k \<in> set (dict_keys d) then dict_keys d else dict_keys d @ [k])"
  by (induction d) (force simp: dict_keys_def)+

lemma for_loop_keys:
  assumes "fst (for_loop rows s) = None"
  shows "set (dict_keys (recommendations (snd (for_loop rows s))))
           = set (dict_keys (recommendations s)) \<union> set (map date rows)
       \<and> (distinct (dict_keys (recommendations s)) \<longrightarrow>
            distinct (dict_keys (recommendations (snd (for_loop rows s)))))"
  using assms
proof (induction rows arbitrary: s)
  case Nil
  show ?case by simp
next
  case (Cons row rows)
  show ?case
  proof (cases "recommendation_text (predicted_value row)")
    case (Inl e)
    with Cons.prems show ?thesis by (simp add: loop_body_raise)
  next
    case (Inr t)
    let ?s = "s\<lparr>recommendations := dict_set (recommendations s) (date row) t\<rparr>"
    from Cons.prems Inr have "fst (for_loop rows ?s) = None"
      by (simp add: loop_body_ok)
    from Cons.IH [OF this] show ?thesis
      using Inr by (auto simp: loop_body_ok dict_keys_dict_set)
  qed
qed

lemma dict_set_fresh:
  "k \<notin> set (dict_keys d) \<Longrightarrow> dict_set d k v = d @ [(k, v)]"
  by (induction d) (auto simp: dict_keys_def)

lemma for_loop_distinct:
  assumes "fst (for_loop rows s) = None"
    and "distinct (dict_keys (recommendations s) @ map date rows)"
  shows "\<exists>new. recommendations (snd (for_loop rows s)) = recommendations s @ new
           \<and> list_all2 (\<lambda>row (k, t). k = date row
                  \<and> recommendation_text (predicted_value row) = Inr t) rows new"
  using assms
proof (induction rows arbitrary: s)
  case Nil
  show ?case by simp
next
  case (Cons row rows)
  show ?case
  proof (cases "recommendation_text (predicted_value row)")
    case (Inl e)
    with Cons.prems show ?thesis by (simp add: loop_body_raise)
  next
    case (Inr t)
    let ?s = "s\<lparr>recommendations := dict_set (recommendations s) (date row) t\<rparr>"
    from Cons.prems(2) have fresh: "date row \<notin> set (dict_keys (recommendations s))"
      by auto
    then have upd: "recommendations ?s = recommendations s @ [(date row, t)]"
      by (simp add: dict_set_fresh)
    from Cons.prems Inr have run: "fst (for_loop rows ?s) = None"
      by (simp add: loop_body_ok)
    from Cons.prems(2) have "distinct (dict_keys (recommendations ?s) @ map date rows)"
      unfolding upd by (auto simp: dict_keys_def)
    from Cons.IH [OF run this] obtain new where
      new: "recommendations (snd (for_loop rows ?s)) = recommendations ?s @ new"
        "list_all2 (\<lambda>row (k, t). k = date row
            \<and> recommendation_text (predicted_value row) = Inr t) rows new"
      by blast
    have "recommendations (snd (for_loop (row # rows) s))
            = recommendations s @ ((date row, t) # new)"
      using new(1) upd Inr by (simp add: loop_body_ok)
    moreover have "list_all2 (\<lambda>row (k, t). k = date row
            \<and> recommendation_text (predicted_value row) = Inr t) (row # rows) ((date row, t) # new)"
      using new(2) Inr by simp
    ultimately show ?thesis by blast
  qed
qed

lemma format_2f_finite:
  "is_finite_number v \<Longrightarrow> in_float_range v \<Longrightarrow> \<exists>n. format_2f v = Inr n"
  by (cases v) (simp_all add: float_of_int_def)

lemma format_2f_overflow:
  "is_finite_number v \<Longrightarrow> \<not> in_float_range v \<Longrightarrow> format_2f v = Inl OverflowError"
  by (cases v) (simp_all add: float_of_int_def)

lemma branch_taken_finite:
  "is_finite_number v \<Longrightarrow> branch_taken v = Inr (spec_band (num_value v))"
  by (cases v) (simp_all add: branch_taken_def spec_band_def)

lemma band_recommendation_branch:
  "band_recommendation v =
     (case branch_taken v of Inl e \<Rightarrow> Inl e | Inr b \<Rightarrow> fstring (band_template b) v)"
  by (simp add: band_recommendation_def branch_taken_def split: sum.splits bool.splits)

lemma band_recommendation_finite:
  assumes "is_finite_number v" and "format_2f v = Inr n"
  shows "band_recommendation v = Inr (band_template (spec_band (num_value v)) n)"
  using assms by (simp add: band_recommendation_branch branch_taken_finite fstring_def)

lemma recommendation_text_finite:
  assumes "is_finite_number v" and "format_2f v = Inr n"
  shows "recommendation_text v =
           Inr (band_template (spec_band (num_value v)) n @ soil_health_notes)"
  using band_recommendation_finite [OF assms] by (simp add: recommendation_text_def)

lemma recommendation_text_overflow:
  assumes "is_finite_number v" and "\<not> in_float_range v"
  shows "recommendation_text v = Inl OverflowError"
  using assms
  by (simp add: recommendation_text_def band_recommendation_branch branch_taken_finite
        fstring_def format_2f_overflow)

lemma recommendation_text_branch:
  assumes "recommendation_text v = Inr t"
  shows "\<exists>b n. branch_taken v = Inr b \<and> format_2f v = Inr n
           \<and> t = band_template b n @ soil_health_notes"
  using assms
  by (auto simp: recommendation_text_def band_recommendation_branch fstring_def
        split: sum.splits)

lemma recommendation_text_Num:
  "recommendation_text (Num q) =
     Inr (band_template (spec_band q) (format_2f_rat q) @ soil_health_notes)"
  by (simp add: recommendation_text_def band_recommendation_def fstring_def spec_band_def)

lemma is_double_70: "is_double 70"
  by (simp add: is_double_def odd_part.simps)

lemma format_2f_rat_70: "format_2f_rat 70 = ''70.00''"
  by (simp add: format_2f_rat_def round_half_even_def show_nat.simps digit_char_def)

lemma float_of_int_rounds: "float_of_int 9007199254740993 = Inr 9007199254740992"
  by (simp add: float_of_int_def nearest_double_def bit_length.simps)

lemma format_2f_rat_2_53: "format_2f_rat 9007199254740992 = ''9007199254740992.00''"
  by (simp add: format_2f_rat_def round_half_even_def show_nat.simps digit_char_def)

lemma float_of_int_overflow: "float_of_int (10 ^ 400) = Inl OverflowError"
  by (simp add: float_of_int_def)

lemma find_append_case:
  "find P (xs @ ys) = (case find P xs of None \<Rightarrow> find P ys | Some x \<Rightarrow> Some x)"
  by (induction xs) simp_all

lemma map_of_dict_set: "map_of (dict_set d k v) = (map_of d)(k \<mapsto> v)"
  by (induction d) (auto simp: fun_eq_iff)

lemma for_loop_total:
  assumes "\<forall>row \<in> set rows. is_finite_number (predicted_value row)
             \<and> in_float_range (predicted_value row)"
  shows "fst (for_loop rows s) = None"
  using assms
proof (induction rows arbitrary: s)
  case Nil
  show ?case by simp
next
  case (Cons row rows)
  then have "is_finite_number (predicted_value row)" "in_float_range (predicted_value row)"
    by simp_all
  then obtain t where "recommendation_text (predicted_value row) = Inr t"
    using format_2f_finite recommendation_text_finite by blast
  with Cons show ?case by (simp add: loop_body_ok)
qed

lemma for_loop_error:
  assumes "\<forall>row \<in> set rows. is_finite_number (predicted_value row)"
    and "fst (for_loop rows s) = Some e"
  shows "e = OverflowError"
  using assms
proof (induction rows arbitrary: s)
  case Nil
  then show ?case by simp
next
  case (Cons row rows)
  then have fin: "is_finite_number (predicted_value row)" by simp
  show ?case
  proof (cases "in_float_range (predicted_value row)")
    case True
    with fin obtain t where t: "recommendation_text (predicted_value row) = Inr t"
      using format_2f_finite recommendation_text_finite by blast
    with Cons.prems have "fst (for_loop rows
        (s\<lparr>recommendations := dict_set (recommendations s) (date row) t\<rparr>)) = Some e"
      by (simp add: loop_body_ok)
    with Cons.IH Cons.prems(1) show ?thesis by simp
  next
    case False
    with fin have "recommendation_text (predicted_value row) = Inl OverflowError"
      by (rule recommendation_text_overflow)
    with Cons.prems(2) show ?thesis by (simp add: loop_body_raise)
  qed
qed

lemma for_loop_first_occurrences:
  assumes "fst (for_loop rows s) = None"
  shows "dict_keys (recommendations (snd (for_loop rows s)))
           = fold (\<lambda>x seen. if x \<in> set seen then seen else seen @ [x])
               (map date rows) (dict_keys (recommendations s))"
  using assms
proof (induction rows arbitrary: s)
  case Nil
  show ?case by simp
next
  case (Cons row rows)
  show ?case
  proof (cases "recommendation_text (predicted_value row)")
    case (Inl e)
    with Cons.prems show ?thesis by (simp add: loop_body_raise)
  next
    case (Inr t)
    let ?s = "s\<lparr>recommendations := dict_set (recommendations s) (date row) t\<rparr>"
    from Cons.prems Inr have "fst (for_loop rows ?s) = None"
      by (simp add: loop_body_ok)
    from Cons.IH [OF this] show ?thesis
      using Inr by (simp add: loop_body_ok dict_keys_dict_set)
  qed
qed

lemma for_loop_lookup:
  assumes "fst (for_loop rows s) = None"
  shows "map_option Inr (map_of (recommendations (snd (for_loop rows s))) k)
           = (case find (\<lambda>row. date row = k) (rev rows) of
                Some row \<Rightarrow> Some (recommendation_text (predicted_value row))
              | None \<Rightarrow> map_option Inr (map_of (recommendations s) k))"
  using assms
proof (induction rows arbitrary: s)
  case Nil
  show ?case by simp
next
  case (Cons row rows)
  show ?case
  proof (cases "recommendation_text (predicted_value row)")
    case (Inl e)
    with Cons.prems show ?thesis by (simp add: loop_body_raise)
  next
    case (Inr t)
    let ?s = "s\<lparr>recommendations := dict_set (recommendations s) (date row) t\<rparr>"
    from Cons.prems Inr have "fst (for_loop rows ?s) = None"
      by (simp add: loop_body_ok)
    from Cons.IH [OF this] show ?thesis
      using Inr
      by (simp add: loop_body_ok find_append_case map_of_dict_set split: option.splits)
  qed
qed

section \<open>Lemmas on the forecast tab\<close>

lemma length_month_labels: "length month_labels = 6"
  by (simp add: month_labels_def)

lemma getitem_truthy: "getitem body k = Inr v \<Longrightarrow> truthy body"
  by (cases body) (auto split: option.splits)

section \<open>The claims\<close>

text \<open>
  Claim C1, as the claim states it, fails for an int beyond the range of the
  doubles: \<open>10 ^ 400\<close> is a finite number, the comparison \<^verbatim>\<open>n_value > 70\<close> holds,
  and \<^verbatim>\<open>{n_value:.2f}\<close> raises \<^verbatim>\<open>OverflowError\<close> (the format converts the int
  with \<^verbatim>\<open>float()\<close>), so no advisory text is produced.
\<close>
theorem huge_int_no_text_counterexample:
  "is_finite_number (predicted_value \<lparr>date = ''Month 1'', predicted_value = PyInt (10 ^ 400)\<rparr>)
   \<and> branch_taken (PyInt (10 ^ 400)) = Inr High
   \<and> generate_recommendations [\<lparr>date = ''Month 1'', predicted_value = PyInt (10 ^ 400)\<rparr>]
       = Inl OverflowError"
proof -
  have "recommendation_text (PyInt (10 ^ 400)) = Inl OverflowError"
    by (rule recommendation_text_overflow) simp_all
  then have "generate_recommendations [\<lparr>date = ''Month 1'', predicted_value = PyInt (10 ^ 400)\<rparr>]
       = Inl OverflowError"
    by (simp add: generate_recommendations_single_raise)
  moreover have "branch_taken (PyInt (10 ^ 400)) = Inr High"
    by (simp add: branch_taken_def)
  ultimately show ?thesis by simp
qed

text \<open>
  Claim C1, amended. For a row whose \<^verbatim>\<open>predicted_value\<close> is a finite number \<open>v\<close>
  that \<^verbatim>\<open>float()\<close> converts (a finite double, or an int of magnitude below
  \<open>2 ^ 1024 - 2 ^ 970\<close>), the iteration of the loop does not raise and stores
  under the row's period label a text that opens with the label of exactly one
  band, the band the thresholds give: High Nitrogen for \<open>v > 70\<close>,
  Moderate-High for \<open>55 < v \<le> 70\<close>, Moderate Nitrogen for \<open>40 < v \<le> 55\<close>,
  Low-Moderate for \<open>v \<le> 40\<close>, negative values and zero included. The heading
  of the text holds the value as \<^verbatim>\<open>.2f\<close> prints it (for an int, the double
  nearest to it, with two decimals). For an int beyond that range the
  iteration raises \<^verbatim>\<open>OverflowError\<close> and stores nothing.
\<close>
theorem band_selection_by_strict_thresholds:
  assumes "is_finite_number (predicted_value row)"
  shows "(in_float_range (predicted_value row) \<longrightarrow>
          (\<exists>text n.
             format_2f (predicted_value row) = Inr n
           \<and> loop_body row s =
               (None, s\<lparr>recommendations := dict_set (recommendations s) (date row) text\<rparr>)
           \<and> generate_recommendations [row] = Inr [(date row, text)]
           \<and> carries_label text (spec_band (num_value (predicted_value row)))
           \<and> (\<forall>b. carries_label text b \<longrightarrow> b = spec_band (num_value (predicted_value row)))
           \<and> prefix (label_lead @ band_heading (spec_band (num_value (predicted_value row)))
                        @ n @ ''*'') text))
       \<and> (\<not> in_float_range (predicted_value row) \<longrightarrow>
            loop_body row s = (Some OverflowError, s)
          \<and> generate_recommendations [row] = Inl OverflowError)"
proof (intro conjI impI)
  assume range: "in_float_range (predicted_value row)"
  with assms obtain n where n: "format_2f (predicted_value row) = Inr n"
    using format_2f_finite by blast
  let ?b = "spec_band (num_value (predicted_value row))"
  let ?text = "band_template ?b n @ soil_health_notes"
  have t: "recommendation_text (predicted_value row) = Inr ?text"
    by (rule recommendation_text_finite [OF assms n])
  have "loop_body row s =
          (None, s\<lparr>recommendations := dict_set (recommendations s) (date row) ?text\<rparr>)"
    by (rule loop_body_ok [OF t])
  moreover have "generate_recommendations [row] = Inr [(date row, ?text)]"
    by (rule generate_recommendations_single [OF t])
  moreover have "carries_label ?text ?b"
    by (simp add: template_carries)
  moreover have "\<forall>b. carries_label ?text b \<longrightarrow> b = ?b"
    by (simp add: template_carries)
  moreover have "prefix (label_lead @ band_heading ?b @ n @ ''*'') ?text"
    by (rule template_heading)
  ultimately show "\<exists>text n.
             format_2f (predicted_value row) = Inr n
           \<and> loop_body row s =
               (None, s\<lparr>recommendations := dict_set (recommendations s) (date row) text\<rparr>)
           \<and> generate_recommendations [row] = Inr [(date row, text)]
           \<and> carries_label text (spec_band (num_value (predicted_value row)))
           \<and> (\<forall>b. carries_label text b \<longrightarrow> b = spec_band (num_value (predicted_value row)))
           \<and> prefix (label_lead @ band_heading (spec_band (num_value (predicted_value row)))
                        @ n @ ''*'') text"
    using n by blast
next
  assume "\<not> in_float_range (predicted_value row)"
  with assms have t: "recommendation_text (predicted_value row) = Inl OverflowError"
    by (rule recommendation_text_overflow)
  show "loop_body row s = (Some OverflowError, s)"
    by (rule loop_body_raise [OF t])
  show "generate_recommendations [row] = Inl OverflowError"
    by (rule generate_recommendations_single_raise [OF t])
qed

text \<open>
  The double 70.0 falls into the Moderate-High band and prints as 70.00; the
  int \<open>2 ^ 53 + 1\<close> falls into the High band and prints as the double nearest
  to it.
\<close>

theorem band_selection_witness:
  "is_finite_number (predicted_value \<lparr>date = ''Month 1'', predicted_value = Num 70\<rparr>)
   \<and> in_float_range (predicted_value \<lparr>date = ''Month 1'', predicted_value = Num 70\<rparr>)
   \<and> (\<exists>text. generate_recommendations [\<lparr>date = ''Month 1'', predicted_value = Num 70\<rparr>]
                 = Inr [(''Month 1'', text)]
         \<and> carries_label text ModerateHigh
         \<and> \<not> carries_label text High
         \<and> prefix (label_lead @ ''Moderate-High Nitrogen Required: 70.00*'') text)
   \<and> is_finite_number
        (predicted_value \<lparr>date = ''Month 2'', predicted_value = PyInt 9007199254740993\<rparr>)
   \<and> in_float_range
        (predicted_value \<lparr>date = ''Month 2'', predicted_value = PyInt 9007199254740993\<rparr>)
   \<and> (\<exists>text. generate_recommendations
                 [\<lparr>date = ''Month 2'', predicted_value = PyInt 9007199254740993\<rparr>]
                 = Inr [(''Month 2'', text)]
         \<and> carries_label text High
         \<and> prefix (label_lead @ ''High Nitrogen Required: 9007199254740992.00*'') text)"
proof -
  have fin: "is_finite_number (predicted_value \<lparr>date = ''Month 1'', predicted_value = Num 70\<rparr>)"
    by (simp add: is_double_70)
  have fin': "is_finite_number
        (predicted_value \<lparr>date = ''Month 2'', predicted_value = PyInt 9007199254740993\<rparr>)"
    by simp
  have a: "\<exists>text. generate_recommendations [\<lparr>date = ''Month 1'', predicted_value = Num 70\<rparr>]
                 = Inr [(''Month 1'', text)]
         \<and> carries_label text ModerateHigh
         \<and> \<not> carries_label text High
         \<and> prefix (label_lead @ ''Moderate-High Nitrogen Required: 70.00*'') text"
    using band_selection_by_strict_thresholds [OF fin,
         of "\<lparr>forecast_df = [], recommendations = []\<rparr>"]
    by (auto simp: spec_band_def format_2f_rat_70)
  have b: "\<exists>text. generate_recommendations
                 [\<lparr>date = ''Month 2'', predicted_value = PyInt 9007199254740993\<rparr>]
                 = Inr [(''Month 2'', text)]
         \<and> carries_label text High
         \<and> prefix (label_lead @ ''High Nitrogen Required: 9007199254740992.00*'') text"
    using band_selection_by_strict_thresholds [OF fin',
         of "\<lparr>forecast_df = [], recommendations = []\<rparr>"]
    by (auto simp: spec_band_def float_of_int_rounds format_2f_rat_2_53)
  from a b fin show ?thesis by simp
qed

text \<open>
  Claim C2. At the thresholds the comparison is strict: the value 70.0 gets
  the Moderate-High text and not the High one, the double nearest to 70.01
  (an exact rational) gets the High text, 55.0 gets the Moderate Nitrogen text
  and 40.0 the Low-Moderate text.
\<close>
theorem boundary_values_take_the_lower_band:
  "map_sum id (map (\<lambda>(k, t). (k, band_of_text t)))
     (generate_recommendations
        [\<lparr>date = ''70.0'', predicted_value = Num 70\<rparr>,
         \<lparr>date = ''70.01'', predicted_value = Num (4926515779878257 / 70368744177664)\<rparr>,
         \<lparr>date = ''55.0'', predicted_value = Num 55\<rparr>,
         \<lparr>date = ''40.0'', predicted_value = Num 40\<rparr>])
   = Inr [(''70.0'', Some ModerateHigh), (''70.01'', Some High),
          (''55.0'', Some Moderate), (''40.0'', Some LowModerate)]"
  by (simp add: generate_recommendations_unfold loop_body_def recommendation_text_Num
        spec_band_def band_of_text_templates)

text \<open>
  Claim C3. Every advisory text in the dictionary that
  \<^verbatim>\<open>generate_recommendations\<close> returns ends with the same soil health block,
  character for character, whatever the predicted value and the band.
\<close>
theorem soil_health_suffix:
  assumes "generate_recommendations df = Inr recs"
  shows "\<forall>(k, t) \<in> set recs. suffix soil_health_notes t"
proof -
  from assms have recs: "recs = recommendations (snd (for_loop df \<lparr>forecast_df = df, recommendations = []\<rparr>))"
    by (auto simp: generate_recommendations_unfold split: prod.splits option.splits)
  show ?thesis
  proof (clarify)
    fix k t assume "(k, t) \<in> set recs"
    with recs for_loop_values [of k t df "\<lparr>forecast_df = df, recommendations = []\<rparr>"]
    have "\<exists>row \<in> set df. recommendation_text (predicted_value row) = Inr t" by auto
    then show "suffix soil_health_notes t" by (auto intro: recommendation_text_suffix)
  qed
qed

text \<open>The one-row frame with the value 70.\<close>

theorem soil_health_suffix_witness:
  "generate_recommendations [\<lparr>date = ''Month 1'', predicted_value = Num 70\<rparr>]
     = Inr [(''Month 1'', moderate_high_template ''70.00'' @ soil_health_notes)]
   \<and> suffix soil_health_notes (moderate_high_template ''70.00'' @ soil_health_notes)"
proof -
  note fmt = format_2f_rat_70
  have t: "recommendation_text (Num 70) = Inr (moderate_high_template ''70.00'' @ soil_health_notes)"
    by (simp add: recommendation_text_Num fmt spec_band_def)
  then have g: "generate_recommendations [\<lparr>date = ''Month 1'', predicted_value = Num 70\<rparr>]
     = Inr [(''Month 1'', moderate_high_template ''70.00'' @ soil_health_notes)]"
    using generate_recommendations_single [of "\<lparr>date = ''Month 1'', predicted_value = Num 70\<rparr>"]
    by simp
  from soil_health_suffix [OF g] show ?thesis
    using g by simp
qed

text \<open>
  Claim C4, as the claim states it, fails on a frame that repeats a period
  label: the dictionary has one key for the two rows, and the text kept is the
  one of the last row with that label.
\<close>
theorem repeated_label_counterexample:
  "map_sum id dict_keys
     (generate_recommendations
        [\<lparr>date = ''Month 1'', predicted_value = Num 80\<rparr>,
         \<lparr>date = ''Month 1'', predicted_value = Num 10\<rparr>])
     = Inr [''Month 1'']
   \<and> map_sum id dict_keys
     (generate_recommendations
        [\<lparr>date = ''Month 1'', predicted_value = Num 80\<rparr>,
         \<lparr>date = ''Month 1'', predicted_value = Num 10\<rparr>])
     \<noteq> Inr (map date [\<lparr>date = ''Month 1'', predicted_value = Num 80\<rparr>,
                          \<lparr>date = ''Month 1'', predicted_value = Num 10\<rparr>])
   \<and> map_sum id (map (\<lambda>(k, t). (k, band_of_text t)))
     (generate_recommendations
        [\<lparr>date = ''Month 1'', predicted_value = Num 80\<rparr>,
         \<lparr>date = ''Month 1'', predicted_value = Num 10\<rparr>])
     = Inr [(''Month 1'', Some LowModerate)]"
  by (simp add: generate_recommendations_unfold loop_body_def recommendation_text_Num
        spec_band_def band_of_text_templates dict_keys_def)

text \<open>
  Claim C4, amended. Whenever the function returns: the keys of the dictionary
  are the period labels of the frame in the order in which they first occur,
  each one once; the text under a label is the advisory text of the last row
  of the frame that carries the label. So when the period labels of the frame
  are pairwise distinct, the dictionary has one entry per row, in the order of
  the rows, each holding the label of its row and the advisory text of that
  row's predicted value. On finite numbers that \<^verbatim>\<open>float()\<close> converts the
  function returns.
\<close>
theorem one_recommendation_per_distinct_label:
  "(generate_recommendations df = Inr recs \<longrightarrow>
      dict_keys recs = first_occurrences (map date df)
    \<and> distinct (dict_keys recs)
    \<and> set (dict_keys recs) = set (map date df)
    \<and> (\<forall>k. map_option Inr (map_of recs k)
            = map_option (\<lambda>row. recommendation_text (predicted_value row))
                (find (\<lambda>row. date row = k) (rev df)))
    \<and> (distinct (map date df) \<longrightarrow>
          dict_keys recs = map date df
        \<and> length recs = length df
        \<and> list_all2 (\<lambda>row (k, t). k = date row
              \<and> recommendation_text (predicted_value row) = Inr t) df recs))
   \<and> ((\<forall>row \<in> set df. is_finite_number (predicted_value row)
                       \<and> in_float_range (predicted_value row)) \<longrightarrow>
        (\<exists>recs'. generate_recommendations df = Inr recs'))"
proof (intro conjI impI allI)
  let ?s = "\<lparr>forecast_df = df, recommendations = []\<rparr>"
  {
    assume g: "generate_recommendations df = Inr recs"
    then have run: "fst (for_loop df ?s) = None"
      and recs: "recs = recommendations (snd (for_loop df ?s))"
      by (auto simp: generate_recommendations_unfold split: prod.splits option.splits)
    from for_loop_first_occurrences [OF run] recs
    show "dict_keys recs = first_occurrences (map date df)"
      by (simp add: first_occurrences_def dict_keys_def)
    from for_loop_keys [OF run] recs
    show "distinct (dict_keys recs)" and "set (dict_keys recs) = set (map date df)"
      by (simp_all add: dict_keys_def)
    fix k
    from for_loop_lookup [OF run, of k] recs
    show "map_option Inr (map_of recs k)
            = map_option (\<lambda>row. recommendation_text (predicted_value row))
                (find (\<lambda>row. date row = k) (rev df))"
      by (simp split: option.splits)
  }
  {
    assume g: "generate_recommendations df = Inr recs"
    then have run: "fst (for_loop df ?s) = None"
      and recs: "recs = recommendations (snd (for_loop df ?s))"
      by (auto simp: generate_recommendations_unfold split: prod.splits option.splits)
    assume d: "distinct (map date df)"
    then have "distinct (dict_keys (recommendations ?s) @ map date df)"
      by (simp add: dict_keys_def)
    from for_loop_distinct [OF run this] recs
    have all2: "list_all2 (\<lambda>row (k, t). k = date row
              \<and> recommendation_text (predicted_value row) = Inr t) df recs"
      by simp
    then show "list_all2 (\<lambda>row (k, t). k = date row
              \<and> recommendation_text (predicted_value row) = Inr t) df recs" .
    from all2 show "length recs = length df"
      by (simp add: list_all2_lengthD)
    from all2 show "dict_keys recs = map date df"
      unfolding dict_keys_def
      by (induction df recs rule: list_all2_induct) auto
  }
  assume "\<forall>row \<in> set df. is_finite_number (predicted_value row)
                       \<and> in_float_range (predicted_value row)"
  from for_loop_total [OF this, of ?s]
  show "\<exists>recs'. generate_recommendations df = Inr recs'"
    by (auto simp: generate_recommendations_unfold split: prod.splits option.splits)
qed

text \<open>
  Six periods, \<open>Month 1\<close> to \<open>Month 6\<close>: exactly these six keys, in this order.
  A frame that repeats \<open>Month 1\<close>: one key, holding the text of the last row.
\<close>

theorem six_months_witness:
  "distinct (map date
      [\<lparr>date = ''Month 1'', predicted_value = Num 75\<rparr>,
       \<lparr>date = ''Month 2'', predicted_value = Num 60\<rparr>,
       \<lparr>date = ''Month 3'', predicted_value = Num 45\<rparr>,
       \<lparr>date = ''Month 4'', predicted_value = Num 30\<rparr>,
       \<lparr>date = ''Month 5'', predicted_value = Num 0\<rparr>,
       \<lparr>date = ''Month 6'', predicted_value = Num (- 5)\<rparr>])
   \<and> (\<exists>recs. generate_recommendations
          [\<lparr>date = ''Month 1'', predicted_value = Num 75\<rparr>,
           \<lparr>date = ''Month 2'', predicted_value = Num 60\<rparr>,
           \<lparr>date = ''Month 3'', predicted_value = Num 45\<rparr>,
           \<lparr>date = ''Month 4'', predicted_value = Num 30\<rparr>,
           \<lparr>date = ''Month 5'', predicted_value = Num 0\<rparr>,
           \<lparr>date = ''Month 6'', predicted_value = Num (- 5)\<rparr>] = Inr recs
        \<and> dict_keys recs
            = [''Month 1'', ''Month 2'', ''Month 3'', ''Month 4'', ''Month 5'', ''Month 6'']
        \<and> length recs = 6)
   \<and> (\<exists>recs. generate_recommendations
          [\<lparr>date = ''Month 1'', predicted_value = Num 80\<rparr>,
           \<lparr>date = ''Month 1'', predicted_value = Num 10\<rparr>] = Inr recs
        \<and> dict_keys recs = [''Month 1'']
        \<and> map_option band_of_text (map_of recs ''Month 1'') = Some (Some LowModerate))"
proof -
  let ?df = "[\<lparr>date = ''Month 1'', predicted_value = Num 75\<rparr>,
              \<lparr>date = ''Month 2'', predicted_value = Num 60\<rparr>,
              \<lparr>date = ''Month 3'', predicted_value = Num 45\<rparr>,
              \<lparr>date = ''Month 4'', predicted_value = Num 30\<rparr>,
              \<lparr>date = ''Month 5'', predicted_value = Num 0\<rparr>,
              \<lparr>date = ''Month 6'', predicted_value = Num (- 5)\<rparr>]"
  let ?dup = "[\<lparr>date = ''Month 1'', predicted_value = Num 80\<rparr>,
               \<lparr>date = ''Month 1'', predicted_value = Num 10\<rparr>]"
  have fin: "\<forall>row \<in> set ?df. is_finite_number (predicted_value row)
                        \<and> in_float_range (predicted_value row)"
    by (simp add: is_double_def odd_part.simps)
  have d: "distinct (map date ?df)"
    by simp
  from one_recommendation_per_distinct_label [of ?df] fin
  obtain recs where g: "generate_recommendations ?df = Inr recs"
    by blast
  from one_recommendation_per_distinct_label [of ?df recs] g d
  have "dict_keys recs = map date ?df \<and> length recs = length ?df"
    by blast
  then have six: "dict_keys recs
            = [''Month 1'', ''Month 2'', ''Month 3'', ''Month 4'', ''Month 5'', ''Month 6'']
        \<and> length recs = 6"
    by simp
  have fin2: "\<forall>row \<in> set ?dup. is_finite_number (predicted_value row)
                        \<and> in_float_range (predicted_value row)"
    by (simp add: is_double_def odd_part.simps)
  from one_recommendation_per_distinct_label [of ?dup] fin2
  obtain recs2 where g2: "generate_recommendations ?dup = Inr recs2"
    by blast
  from one_recommendation_per_distinct_label [of ?dup recs2] g2
  have keys2: "dict_keys recs2 = first_occurrences (map date ?dup)"
    and look: "map_option Inr (map_of recs2 ''Month 1'')
            = map_option (\<lambda>row. recommendation_text (predicted_value row))
                (find (\<lambda>row. date row = ''Month 1'') (rev ?dup))"
    by blast+
  from keys2 have k2: "dict_keys recs2 = [''Month 1'']"
    by (simp add: first_occurrences_def)
  from look have "map_option Inr (map_of recs2 ''Month 1'')
      = Some (Inr (low_moderate_template (format_2f_rat 10) @ soil_health_notes))"
    by (simp add: recommendation_text_Num spec_band_def)
  then have "map_of recs2 ''Month 1''
      = Some (low_moderate_template (format_2f_rat 10) @ soil_health_notes)"
    by (cases "map_of recs2 ''Month 1''") simp_all
  then have "map_option band_of_text (map_of recs2 ''Month 1'') = Some (Some LowModerate)"
    by (simp add: band_of_text_templates)
  with g d six g2 k2 show ?thesis
    by blast
qed

text \<open>
  Claim C5. For numeric predicted values the function reads the period label
  and the predicted value of a row and nothing else: two frames that agree on
  these two columns, with numbers as predicted values, give the same result
  whatever their other columns hold (the two frames may even have different
  further columns), and two rows with the same numeric predicted value get the
  same advisory text, or raise the same exception.
\<close>
theorem advisory_depends_on_predicted_value_only:
  fixes df1 :: "'a row_scheme list" and df2 :: "'b row_scheme list"
    and r1 :: "'a row_scheme" and r2 :: "'b row_scheme"
  shows "(map date df1 = map date df2 \<and> map predicted_value df1 = map predicted_value df2
          \<and> (\<forall>row \<in> set df1. is_number (predicted_value row))
            \<longrightarrow> generate_recommendations df1 = generate_recommendations df2)
       \<and> (predicted_value r1 = predicted_value r2 \<and> is_number (predicted_value r1)
            \<longrightarrow> map_sum id (map snd) (generate_recommendations [r1])
                = map_sum id (map snd) (generate_recommendations [r2]))"
proof (intro conjI impI)
  assume eq: "map date df1 = map date df2 \<and> map predicted_value df1 = map predicted_value df2
          \<and> (\<forall>row \<in> set df1. is_number (predicted_value row))"
  have "fst (for_loop df1 \<lparr>forecast_df = df1, recommendations = []\<rparr>)
          = fst (for_loop df2 \<lparr>forecast_df = df2, recommendations = []\<rparr>)
      \<and> recommendations (snd (for_loop df1 \<lparr>forecast_df = df1, recommendations = []\<rparr>))
          = recommendations (snd (for_loop df2 \<lparr>forecast_df = df2, recommendations = []\<rparr>))"
    using eq by (intro for_loop_cong) simp_all
  then show "generate_recommendations df1 = generate_recommendations df2"
    by (auto simp: generate_recommendations_unfold split: prod.splits option.splits)
next
  assume eq: "predicted_value r1 = predicted_value r2 \<and> is_number (predicted_value r1)"
  show "map_sum id (map snd) (generate_recommendations [r1])
      = map_sum id (map snd) (generate_recommendations [r2])"
  proof (cases "recommendation_text (predicted_value r1)")
    case (Inl e)
    with eq show ?thesis
      by (simp add: generate_recommendations_single_raise)
  next
    case (Inr t)
    with eq show ?thesis
      by (simp add: generate_recommendations_single)
  qed
qed

text \<open>
  Two one-row frames with the same label and the same predicted value and
  different confidence bounds; two forecast points with the same predicted
  value, different labels and different confidence bounds.
\<close>

theorem advisory_depends_on_predicted_value_only_witness:
  "map date [\<lparr>date = ''Month 1'', predicted_value = Num 70,
                lower_ci = Num 60, upper_ci = Num 80\<rparr>]
     = map date [\<lparr>date = ''Month 1'', predicted_value = Num 70,
                   lower_ci = PyInt 1, upper_ci = NaN\<rparr>]
   \<and> map predicted_value [\<lparr>date = ''Month 1'', predicted_value = Num 70,
                             lower_ci = Num 60, upper_ci = Num 80\<rparr>]
     = map predicted_value [\<lparr>date = ''Month 1'', predicted_value = Num 70,
                              lower_ci = PyInt 1, upper_ci = NaN\<rparr>]
   \<and> is_number (predicted_value \<lparr>date = ''Month 1'', predicted_value = Num 70,
                     lower_ci = Num 60, upper_ci = Num 80\<rparr>)
   \<and> generate_recommendations [\<lparr>date = ''Month 1'', predicted_value = Num 70,
                                  lower_ci = Num 60, upper_ci = Num 80\<rparr>]
     = generate_recommendations [\<lparr>date = ''Month 1'', predicted_value = Num 70,
                                    lower_ci = PyInt 1, upper_ci = NaN\<rparr>]
   \<and> predicted_value \<lparr>date = ''Month 1'', predicted_value = Num 70,
                       lower_ci = Num 60, upper_ci = Num 80\<rparr>
     = predicted_value \<lparr>date = ''Month 2'', predicted_value = Num 70,
                         lower_ci = Num 1, upper_ci = NaN\<rparr>
   \<and> lower_ci \<lparr>date = ''Month 1'', predicted_value = Num 70,
                 lower_ci = Num 60, upper_ci = Num 80\<rparr>
     \<noteq> lower_ci \<lparr>date = ''Month 2'', predicted_value = Num 70,
                     lower_ci = Num 1, upper_ci = NaN\<rparr>
   \<and> map_sum id (map snd)
        (generate_recommendations [\<lparr>date = ''Month 1'', predicted_value = Num 70,
                                     lower_ci = Num 60, upper_ci = Num 80\<rparr>])
     = map_sum id (map snd)
        (generate_recommendations [\<lparr>date = ''Month 2'', predicted_value = Num 70,
                                     lower_ci = Num 1, upper_ci = NaN\<rparr>])"
proof -
  note inst = advisory_depends_on_predicted_value_only
          [of "[\<lparr>date = ''Month 1'', predicted_value = Num 70,
                 lower_ci = Num 60, upper_ci = Num 80\<rparr>]"
              "[\<lparr>date = ''Month 1'', predicted_value = Num 70,
                 lower_ci = PyInt 1, upper_ci = NaN\<rparr>]"
              "\<lparr>date = ''Month 1'', predicted_value = Num 70,
                lower_ci = Num 60, upper_ci = Num 80\<rparr>"
              "\<lparr>date = ''Month 2'', predicted_value = Num 70,
                lower_ci = Num 1, upper_ci = NaN\<rparr>"]
  have frames: "generate_recommendations [\<lparr>date = ''Month 1'', predicted_value = Num 70,
                                  lower_ci = Num 60, upper_ci = Num 80\<rparr>]
     = generate_recommendations [\<lparr>date = ''Month 1'', predicted_value = Num 70,
                                    lower_ci = PyInt 1, upper_ci = NaN\<rparr>]"
    using conjunct1 [OF inst] by (simp add: is_double_70)
  have rows: "map_sum id (map snd)
        (generate_recommendations [\<lparr>date = ''Month 1'', predicted_value = Num 70,
                                     lower_ci = Num 60, upper_ci = Num 80\<rparr>])
     = map_sum id (map snd)
        (generate_recommendations [\<lparr>date = ''Month 2'', predicted_value = Num 70,
                                     lower_ci = Num 1, upper_ci = NaN\<rparr>])"
    using conjunct2 [OF inst] by (simp add: is_double_70)
  show ?thesis
    by (intro conjI frames rows) (simp_all add: is_double_70)
qed

text \<open>
  Claim C6, as the claim states it, fails on a frame that holds an int beyond
  the range of the doubles: every value of the frame is a finite number, and
  the f-string of the second row raises \<^verbatim>\<open>OverflowError\<close>.
\<close>
theorem huge_int_raises_counterexample:
  "is_finite_number (predicted_value \<lparr>date = ''Month 1'', predicted_value = Num 50\<rparr>)
   \<and> is_finite_number
        (predicted_value \<lparr>date = ''Month 2'', predicted_value = PyInt (- (10 ^ 400))\<rparr>)
   \<and> generate_recommendations
        [\<lparr>date = ''Month 1'', predicted_value = Num 50\<rparr>,
         \<lparr>date = ''Month 2'', predicted_value = PyInt (- (10 ^ 400))\<rparr>]
       = Inl OverflowError"
proof -
  have "recommendation_text (PyInt (- (10 ^ 400))) = Inl OverflowError"
    by (rule recommendation_text_overflow) simp_all
  then have "generate_recommendations
        [\<lparr>date = ''Month 1'', predicted_value = Num 50\<rparr>,
         \<lparr>date = ''Month 2'', predicted_value = PyInt (- (10 ^ 400))\<rparr>]
       = Inl OverflowError"
    by (simp add: generate_recommendations_unfold loop_body_def recommendation_text_Num)
  moreover have "is_double 50"
    by (simp add: is_double_def odd_part.simps)
  ultimately show ?thesis by simp
qed

text \<open>
  Claim C6, amended. On a frame whose predicted values are all finite numbers
  (negative values and zero included) that \<^verbatim>\<open>float()\<close> converts, that is finite
  doubles and ints of magnitude below \<open>2 ^ 1024 - 2 ^ 970\<close>,
  \<^verbatim>\<open>generate_recommendations\<close> returns a dictionary and raises nothing. On a
  frame of finite numbers the only exception it can raise is the
  \<^verbatim>\<open>OverflowError\<close> of an int beyond that range.
\<close>
theorem total_on_finite_numbers:
  assumes "\<forall>row \<in> set df. is_finite_number (predicted_value row)"
  shows "((\<forall>row \<in> set df. in_float_range (predicted_value row)) \<longrightarrow>
            (\<exists>recs. generate_recommendations df = Inr recs))
       \<and> (\<forall>e. generate_recommendations df = Inl e \<longrightarrow> e = OverflowError)"
proof (intro conjI impI allI)
  let ?s = "\<lparr>forecast_df = df, recommendations = []\<rparr>"
  assume "\<forall>row \<in> set df. in_float_range (predicted_value row)"
  with assms have "\<forall>row \<in> set df. is_finite_number (predicted_value row)
                       \<and> in_float_range (predicted_value row)"
    by simp
  from for_loop_total [OF this, of ?s]
  show "\<exists>recs. generate_recommendations df = Inr recs"
    by (auto simp: generate_recommendations_unfold split: prod.splits option.splits)
next
  let ?s = "\<lparr>forecast_df = df, recommendations = []\<rparr>"
  fix e
  assume "generate_recommendations df = Inl e"
  then have "fst (for_loop df ?s) = Some e"
    by (auto simp: generate_recommendations_unfold split: prod.splits option.splits)
  with assms show "e = OverflowError"
    by (rule for_loop_error)
qed

text \<open>A frame with a negative double, zero as an int and the negative zero.\<close>

theorem total_on_finite_numbers_witness:
  "is_finite_number (predicted_value \<lparr>date = ''Month 1'', predicted_value = Num (- 5)\<rparr>)
   \<and> is_finite_number (predicted_value \<lparr>date = ''Month 2'', predicted_value = PyInt 0\<rparr>)
   \<and> is_finite_number (predicted_value \<lparr>date = ''Month 3'', predicted_value = NegZero\<rparr>)
   \<and> in_float_range (predicted_value \<lparr>date = ''Month 1'', predicted_value = Num (- 5)\<rparr>)
   \<and> in_float_range (predicted_value \<lparr>date = ''Month 2'', predicted_value = PyInt 0\<rparr>)
   \<and> in_float_range (predicted_value \<lparr>date = ''Month 3'', predicted_value = NegZero\<rparr>)
   \<and> (\<exists>recs. generate_recommendations
                 [\<lparr>date = ''Month 1'', predicted_value = Num (- 5)\<rparr>,
                  \<lparr>date = ''Month 2'', predicted_value = PyInt 0\<rparr>,
                  \<lparr>date = ''Month 3'', predicted_value = NegZero\<rparr>] = Inr recs)"
  using total_on_finite_numbers
          [of "[\<lparr>date = ''Month 1'', predicted_value = Num (- 5)\<rparr>,
                \<lparr>date = ''Month 2'', predicted_value = PyInt 0\<rparr>,
                \<lparr>date = ''Month 3'', predicted_value = NegZero\<rparr>]"]
  by (simp add: is_double_def odd_part.simps)

text \<open>
  Claim C7, as the claim states it, fails for a response with status 200 whose
  body is not a JSON document: \<^verbatim>\<open>response.json()\<close> raises inside the \<^verbatim>\<open>try\<close>, the
  handler shows the connection error and \<^verbatim>\<open>None\<close> is returned, although the
  status is 200.
\<close>
theorem status_200_without_json_counterexample:
  "status_code \<lparr>status_code = 200, json = Inl ''Expecting value: line 1 column 1 (char 0)''\<rparr> = 200
   \<and> get_forecast
        (Responds \<lparr>status_code = 200, json = Inl ''Expecting value: line 1 column 1 (char 0)''\<rparr>)
       = (JNull, [StError ''Error connecting to API: Expecting value: line 1 column 1 (char 0)''])"
  by (simp add: get_forecast_def)

text \<open>
  Claim C7, amended. A transport error and a status other than 200 both make
  \<^verbatim>\<open>get_forecast\<close> show one error and return \<^verbatim>\<open>None\<close>. It returns the parsed
  body, showing nothing, if and only if the status is 200 and the body parses
  as JSON; a response with status 200 whose body does not parse is handled as
  the transport error with the same exception text is.
\<close>
theorem get_forecast_outcomes:
  "get_forecast (Raises e) = (JNull, [StError (''Error connecting to API: '' @ e)])
   \<and> (status_code r \<noteq> 200 \<longrightarrow>
        get_forecast (Responds r)
          = (JNull, [StError (''Error fetching forecast: '' @ show_int (status_code r))]))
   \<and> (get_forecast (Responds r) = (body, []) \<longleftrightarrow> status_code r = 200 \<and> json r = Inr body)
   \<and> (status_code r = 200 \<and> json r = Inl e \<longrightarrow>
        get_forecast (Responds r) = get_forecast (Raises e))"
  by (auto simp: get_forecast_def split: sum.splits)

text \<open>
  A response with status 404, and one with status 200 and no JSON in it.
\<close>

theorem get_forecast_outcomes_witness:
  "status_code \<lparr>status_code = 404, json = Inr (JString ''Not Found'')\<rparr> \<noteq> 200
   \<and> get_forecast (Responds \<lparr>status_code = 404, json = Inr (JString ''Not Found'')\<rparr>)
       = (JNull, [StError ''Error fetching forecast: 404''])
   \<and> status_code \<lparr>status_code = 200, json = Inl ''Expecting value''\<rparr> = 200
   \<and> json \<lparr>status_code = 200, json = Inl ''Expecting value''\<rparr> = Inl ''Expecting value''
   \<and> get_forecast (Responds \<lparr>status_code = 200, json = Inl ''Expecting value''\<rparr>)
       = get_forecast (Raises ''Expecting value'')"
  using get_forecast_outcomes [of "''Expecting value''"
          "\<lparr>status_code = 404, json = Inr (JString ''Not Found'')\<rparr>" JNull]
        get_forecast_outcomes [of "''Expecting value''"
          "\<lparr>status_code = 200, json = Inl ''Expecting value''\<rparr>" JNull]
  by (simp add: show_int_def show_nat.simps digit_char_def)

text \<open>
  Claim C8. A call leaves the frame it was given as it was, its result is
  decided by that frame alone (whatever the local dictionary held before the
  call), and a second call on the state the first one left returns the same
  result.
\<close>
theorem no_side_effects:
  "forecast_df (snd (generate_recommendations_call s)) = forecast_df s
   \<and> fst (generate_recommendations_call s) = generate_recommendations (forecast_df s)
   \<and> fst (generate_recommendations_call (snd (generate_recommendations_call s)))
       = fst (generate_recommendations_call s)"
proof -
  have frame: "forecast_df (snd (generate_recommendations_call s')) = forecast_df s'" for s' :: "'a state"
    using for_loop_frame [of "forecast_df s'" "s'\<lparr>recommendations := []\<rparr>"]
    by (auto simp: generate_recommendations_call_def split: prod.splits option.splits)
  have res: "fst (generate_recommendations_call s') = generate_recommendations (forecast_df s')"
    for s' :: "'a state"
  proof -
    have fresh: "s'\<lparr>recommendations := []\<rparr> = \<lparr>forecast_df = forecast_df s', recommendations = []\<rparr>"
      by (cases s') simp
    show ?thesis
      unfolding generate_recommendations_def generate_recommendations_call_def Let_def fresh
      by simp
  qed
  show ?thesis
    by (simp add: frame res)
qed

text \<open>
  Claim C9, as the claim states it, fails for the body \<^verbatim>\<open>{}\<close>: it has no
  \<^verbatim>\<open>forecast\<close> key, but an empty dictionary is false in \<^verbatim>\<open>if forecast_data:\<close>, so
  the tab takes the \<^verbatim>\<open>else\<close> branch and shows the notice; nothing is raised.
\<close>
theorem empty_object_counterexample:
  "getitem (JObject []) ''forecast'' = Inl KeyError
   \<and> forecast_tab (\<lambda>data. Inl ValueError)
        (Responds \<lparr>status_code = 200, json = Inr (JObject [])\<rparr>)
       = Inr (unavailable_notice, None)"
  by (simp add: forecast_tab_def get_forecast_def)

text \<open>
  Claim C9, amended. After a response with status 200 and a parsed body: a
  body that is true as a Python object and cannot be subscripted with
  \<^verbatim>\<open>'forecast'\<close> makes the tab raise (\<^verbatim>\<open>KeyError\<close> for a dictionary without the
  key, \<^verbatim>\<open>TypeError\<close> for any other object); a \<^verbatim>\<open>forecast\<close> list of records with
  a number of items other than 0 and 6 makes the assignment of the six labels
  raise \<^verbatim>\<open>ValueError\<close>, as does every frame with a number of rows other than 0
  and 6, whatever document it was built from; for the empty list the
  assignment succeeds on the empty frame and the chart raises \<^verbatim>\<open>KeyError\<close> when
  it reads \<^verbatim>\<open>predicted_value\<close>. A body that is false as a Python object raises
  nothing: the tab shows the notice that no forecast is there.
\<close>
theorem forecast_tab_raises:
  "(truthy body \<and> getitem body ''forecast'' = Inl e \<longrightarrow>
      forecast_tab other (Responds \<lparr>status_code = 200, json = Inr body\<rparr>) = Inl e)
   \<and> (getitem body ''forecast'' = Inr (JArray items) \<and> list_all is_object items
        \<and> items \<noteq> [] \<and> length items \<noteq> 6 \<longrightarrow>
      forecast_tab other (Responds \<lparr>status_code = 200, json = Inr body\<rparr>) = Inl ValueError)
   \<and> (getitem body ''forecast'' = Inr (JArray []) \<longrightarrow>
      setitem \<lparr>index = 0, columns = []\<rparr> ''date'' month_labels
        = Inr \<lparr>index = 6, columns = [''date'']\<rparr>
      \<and> forecast_tab other (Responds \<lparr>status_code = 200, json = Inr body\<rparr>) = Inl KeyError)
   \<and> (getitem body ''forecast'' = Inr data \<and> pd_DataFrame other data = Inr df
        \<and> index df \<noteq> 0 \<and> index df \<noteq> 6 \<longrightarrow>
      forecast_tab other (Responds \<lparr>status_code = 200, json = Inr body\<rparr>) = Inl ValueError)
   \<and> (\<not> truthy body \<longrightarrow>
      forecast_tab other (Responds \<lparr>status_code = 200, json = Inr body\<rparr>)
        = Inr (unavailable_notice, None))"
proof (intro conjI impI)
  assume "truthy body \<and> getitem body ''forecast'' = Inl e"
  then show "forecast_tab other (Responds \<lparr>status_code = 200, json = Inr body\<rparr>) = Inl e"
    by (simp add: forecast_tab_def get_forecast_def)
next
  assume a: "getitem body ''forecast'' = Inr (JArray items) \<and> list_all is_object items
        \<and> items \<noteq> [] \<and> length items \<noteq> 6"
  then have "truthy body" by (blast intro: getitem_truthy)
  with a show "forecast_tab other (Responds \<lparr>status_code = 200, json = Inr body\<rparr>) = Inl ValueError"
    by (simp add: forecast_tab_def get_forecast_def pd_DataFrame_def setitem_def
          length_month_labels)
next
  assume a: "getitem body ''forecast'' = Inr (JArray [])"
  show "setitem \<lparr>index = 0, columns = []\<rparr> ''date'' month_labels
        = Inr \<lparr>index = 6, columns = [''date'']\<rparr>"
    by (simp add: setitem_def length_month_labels add_column_def month_labels_def)
  from a have "truthy body" by (rule getitem_truthy)
  with a show "forecast_tab other (Responds \<lparr>status_code = 200, json = Inr body\<rparr>) = Inl KeyError"
    by (simp add: forecast_tab_def get_forecast_def pd_DataFrame_def setitem_def
          length_month_labels add_column_def month_labels_def chart_columns_def read_column_def)
next
  assume a: "getitem body ''forecast'' = Inr data \<and> pd_DataFrame other data = Inr df
        \<and> index df \<noteq> 0 \<and> index df \<noteq> 6"
  then have "truthy body" by (blast intro: getitem_truthy)
  with a show "forecast_tab other (Responds \<lparr>status_code = 200, json = Inr body\<rparr>) = Inl ValueError"
    by (simp add: forecast_tab_def get_forecast_def setitem_def length_month_labels)
next
  assume "\<not> truthy body"
  then show "forecast_tab other (Responds \<lparr>status_code = 200, json = Inr body\<rparr>)
        = Inr (unavailable_notice, None)"
    by (simp add: forecast_tab_def get_forecast_def)
qed

text \<open>
  A body without the key, and a forecast of one record.
\<close>

theorem forecast_tab_raises_witness:
  "truthy (JObject [(''detail'', JString ''Not Found'')])
   \<and> getitem (JObject [(''detail'', JString ''Not Found'')]) ''forecast'' = Inl KeyError
   \<and> forecast_tab (\<lambda>data. Inl ValueError)
        (Responds \<lparr>status_code = 200,
                    json = Inr (JObject [(''detail'', JString ''Not Found'')])\<rparr>)
       = Inl KeyError
   \<and> getitem (JObject [(''forecast'',
          JArray [JObject [(''predicted_value'', JNumber 50), (''lower_ci'', JNumber 45),
                           (''upper_ci'', JNumber 55)]])]) ''forecast''
       = Inr (JArray [JObject [(''predicted_value'', JNumber 50), (''lower_ci'', JNumber 45),
                               (''upper_ci'', JNumber 55)]])
   \<and> list_all is_object
        [JObject [(''predicted_value'', JNumber 50), (''lower_ci'', JNumber 45),
                  (''upper_ci'', JNumber 55)]]
   \<and> length [JObject [(''predicted_value'', JNumber 50), (''lower_ci'', JNumber 45),
                       (''upper_ci'', JNumber 55)]] \<noteq> 6
   \<and> forecast_tab (\<lambda>data. Inl ValueError)
        (Responds \<lparr>status_code = 200,
           json = Inr (JObject [(''forecast'',
             JArray [JObject [(''predicted_value'', JNumber 50), (''lower_ci'', JNumber 45),
                              (''upper_ci'', JNumber 55)]])])\<rparr>)
       = Inl ValueError"
  using forecast_tab_raises
          [where body = "JObject [(''detail'', JString ''Not Found'')]" and e = KeyError
             and other = "\<lambda>data. Inl ValueError"]
        forecast_tab_raises
          [where body = "JObject [(''forecast'',
             JArray [JObject [(''predicted_value'', JNumber 50), (''lower_ci'', JNumber 45),
                              (''upper_ci'', JNumber 55)]])]"
             and other = "\<lambda>data. Inl ValueError"
             and items = "[JObject [(''predicted_value'', JNumber 50), (''lower_ci'', JNumber 45),
                              (''upper_ci'', JNumber 55)]]"]
  by simp

text \<open>
  Claim C10. For finite values \<open>v1 \<le> v2\<close> the branch of the chain entered for
  \<open>v1\<close> is at most the branch entered for \<open>v2\<close>, in the order Low-Moderate,
  Moderate, Moderate-High, High. Whenever a text is produced it names the band
  of its branch, and it is produced for every value that \<^verbatim>\<open>float()\<close> converts.
\<close>
theorem band_monotone:
  assumes "is_finite_number v1" and "is_finite_number v2"
    and "num_value v1 \<le> num_value v2"
  shows "\<exists>b1 b2.
           branch_taken v1 = Inr b1 \<and> branch_taken v2 = Inr b2
         \<and> band_rank b1 \<le> band_rank b2
         \<and> (\<forall>t. recommendation_text v1 = Inr t \<longrightarrow> band_of_text t = Some b1)
         \<and> (\<forall>t. recommendation_text v2 = Inr t \<longrightarrow> band_of_text t = Some b2)
         \<and> (in_float_range v1 \<longrightarrow> (\<exists>t. recommendation_text v1 = Inr t))
         \<and> (in_float_range v2 \<longrightarrow> (\<exists>t. recommendation_text v2 = Inr t))"
proof -
  let ?b1 = "spec_band (num_value v1)" and ?b2 = "spec_band (num_value v2)"
  have b: "branch_taken v1 = Inr ?b1" "branch_taken v2 = Inr ?b2"
    using assms(1,2) by (simp_all add: branch_taken_finite)
  have rank: "band_rank ?b1 \<le> band_rank ?b2"
    using assms(3) by (simp add: spec_band_def)
  have names: "band_of_text t = Some (spec_band (num_value v))"
    if "is_finite_number v" and "recommendation_text v = Inr t" for v t
    using recommendation_text_branch [OF that(2)] that(1)
    by (auto simp: branch_taken_finite band_of_text_template)
  have produced: "\<exists>t. recommendation_text v = Inr t"
    if "is_finite_number v" and "in_float_range v" for v
    using that format_2f_finite recommendation_text_finite by blast
  from b rank names [OF assms(1)] names [OF assms(2)] produced [OF assms(1)] produced [OF assms(2)]
  show ?thesis by blast
qed

text \<open>
  The double 40.0 and the int 71; and the double 40.0 and the int \<open>10 ^ 400\<close>,
  for which the High branch is entered and no text is produced.
\<close>

theorem band_monotone_witness:
  "is_finite_number (Num 40) \<and> is_finite_number (PyInt 71)
   \<and> num_value (Num 40) \<le> num_value (PyInt 71)
   \<and> branch_taken (Num 40) = Inr LowModerate \<and> branch_taken (PyInt 71) = Inr High
   \<and> band_rank LowModerate \<le> band_rank High
   \<and> (\<exists>t1 t2. recommendation_text (Num 40) = Inr t1 \<and> recommendation_text (PyInt 71) = Inr t2
         \<and> band_of_text t1 = Some LowModerate \<and> band_of_text t2 = Some High)"
proof -
  have fin: "is_finite_number (Num 40)" "is_finite_number (PyInt 71)"
    by (simp_all add: is_double_def odd_part.simps)
  have le: "num_value (Num 40) \<le> num_value (PyInt 71)"
    by simp
  have br: "branch_taken (Num 40) = Inr LowModerate" "branch_taken (PyInt 71) = Inr High"
    by (simp_all add: branch_taken_def)
  from band_monotone [OF fin le] br
  have "\<exists>t1 t2. recommendation_text (Num 40) = Inr t1 \<and> recommendation_text (PyInt 71) = Inr t2
         \<and> band_of_text t1 = Some LowModerate \<and> band_of_text t2 = Some High"
    by auto
  with fin le br show ?thesis by simp
qed

end
